theory Spec2Isabelle
  imports Main
begin

section \<open>The newcert handler: data model\<close>

text \<open>
  The development embeds the request handler of package \<open>newcert\<close>
  (\<open>Handler.Handle\<close> and \<open>computeSum\<close>). Go byte slices and Go strings both hold
  arbitrary bytes and are converted into each other without change, so both are
  \<open>string\<close> here (a list of 8-bit characters).
\<close>

type_synonym bytes = string

subsection \<open>Errors\<close>

text \<open>
  A Go \<open>error\<close> value. \<open>ErrorString\<close> is what \<open>fmt.Errorf\<close> builds from a constant
  text; \<open>External\<close> is an error value produced inside a collaborator or the standard
  library, opaque to the handler; \<open>BadRequest\<close> is the error built by
  \<open>errors.NewBadRequest\<close>, which wraps the error it is given.
\<close>

datatype 'x error =
    ErrorString string
  | External 'x
  | BadRequest "'x error"

text \<open>
  Modelled from the spec: package \<open>errors\<close> of the repository is not among the sources.
  \<open>NewBadRequest\<close> turns the error it is given into the client-error (4xx class)
  failure that the spec files under malformed input and policy violation;
  \<open>NewBadRequestString\<close> does the same for an error made of the given text.
\<close>

definition NewBadRequest :: "'x error \<Rightarrow> 'x error" where
  "NewBadRequest e = BadRequest e"

definition NewBadRequestString :: "string \<Rightarrow> 'x error" where
  "NewBadRequestString s = NewBadRequest (ErrorString s)"

text \<open>
  The code of a structured error, \<open>errors.New(category, reason).ErrorCode\<close>. The
  numbering lives in package \<open>errors\<close>; the code is kept as the pair it is computed
  from.
\<close>

datatype Category = PolicyError
datatype Reason = InvalidRequest
datatype ErrorCode = ErrorCode Category Reason

subsection \<open>Requests\<close>

text \<open>
  \<open>csr.CertificateRequest\<close>: the handler reads the host list and tests the CA section
  for nil; everything else is handed on to the CSR generator untouched and is
  collected in \<open>Subject\<close>. Of the CA section only its presence is observed.
\<close>

datatype CAConfig = CAConfig (PathLength: int) (CAExpiry: string)

record CertificateRequest =
  Subject :: string
  Hosts :: "string list"
  CA :: "CAConfig option"

text \<open>\<open>newCertRequest\<close>; \<open>Request\<close> is a pointer and may be nil after decoding.\<close>

record newCertRequest =
  Request :: "CertificateRequest option"
  Profile :: string
  Label :: string
  Bundle :: bool

text \<open>\<open>signer.SignRequest\<close>, with the three fields the handler sets.\<close>

record SignRequest =
  sr_Request :: string
  sr_Profile :: string
  sr_Label :: string

subsection \<open>Certificates, bundles, OCSP\<close>

text \<open>
  \<open>time.Time\<close> as seconds since the Unix epoch and nanoseconds within the second;
  \<open>Unix\<close> is \<open>Time.Unix()\<close>.
\<close>

record Time =
  sec :: int
  nsec :: nat

definition Unix :: "Time \<Rightarrow> int" where
  "Unix t = sec t"

text \<open>
  \<open>x509.Certificate\<close>, with the fields that are read. \<open>SerialNumber\<close> is a
  \<open>*big.Int\<close>; the parser and the bundler always set it, so it is an integer here.
\<close>

record Certificate =
  Raw :: bytes
  SerialNumber :: int
  AuthorityKeyId :: bytes

record x509_CertificateRequest =
  req_Raw :: bytes

text \<open>\<open>bundler.Bundle\<close>: the leaf certificate and the expiry of the chain.\<close>

record Bundle =
  Cert :: Certificate
  Expires :: Time

text \<open>\<open>ocsp.SignRequest\<close>, \<open>ocsp.Response\<close> and \<open>certdb.OCSPRecord\<close>.\<close>

record ocsp_SignRequest =
  osr_Certificate :: Certificate
  osr_Status :: string

record ocsp_Response =
  NextUpdate :: Time

record OCSPRecord =
  Serial :: string
  AKI :: string
  Body :: string
  Expiry :: Time

subsection \<open>Digests\<close>

record Sum =
  MD5 :: string
  SHA1 :: string
  SHA256 :: string

record Block =
  Type :: string
  Bytes :: bytes

subsection \<open>The standard library\<close>

text \<open>
  The functions of the Go standard library and of \<open>x/crypto/ocsp\<close> that the package
  calls. They are parameters of the model: \<open>pem.Decode\<close> returns the first block or
  nil together with the rest of the input; the parsers return an error or the parsed
  structure; the hash functions return the digest bytes; \<open>json.Unmarshal\<close> is applied
  to the fresh \<open>newCertRequest\<close> whose \<open>Request\<close> is \<open>csr.New()\<close>.
\<close>

record 'x stdlib =
  pem_Decode :: "bytes \<Rightarrow> Block option \<times> bytes"
  x509_ParseCertificateRequest :: "bytes \<Rightarrow> 'x error + x509_CertificateRequest"
  x509_ParseCertificate :: "bytes \<Rightarrow> 'x error + Certificate"
  md5_Sum :: "bytes \<Rightarrow> bytes"
  sha1_Sum :: "bytes \<Rightarrow> bytes"
  sha256_Sum256 :: "bytes \<Rightarrow> bytes"
  json_Unmarshal :: "bytes \<Rightarrow> 'x error + newCertRequest"
  ocsp_ParseResponse :: "bytes \<Rightarrow> 'x error + ocsp_Response"

text \<open>\<open>fmt.Sprintf("%X", bs)\<close> and \<open>hex.EncodeToString(bs)\<close>: two hex digits a byte.\<close>

definition hex_digit :: "string \<Rightarrow> nat \<Rightarrow> char" where
  "hex_digit alphabet n = alphabet ! (n mod 16)"

definition hex_bytes :: "string \<Rightarrow> bytes \<Rightarrow> string" where
  "hex_bytes alphabet bs =
     concat (map (\<lambda>c. [hex_digit alphabet (of_char c div 16), hex_digit alphabet (of_char c)]) bs)"

definition Sprintf_X :: "bytes \<Rightarrow> string" where
  "Sprintf_X bs = hex_bytes ''0123456789ABCDEF'' bs"

definition hex_EncodeToString :: "bytes \<Rightarrow> string" where
  "hex_EncodeToString bs = hex_bytes ''0123456789abcdef'' bs"

text \<open>\<open>big.Int.String()\<close>: the decimal digits, with a minus sign below zero.\<close>

fun decimal :: "nat \<Rightarrow> string" where
  "decimal n =
     (if n < 10 then [''0123456789'' ! n]
      else decimal (n div 10) @ [''0123456789'' ! (n mod 10)])"

declare decimal.simps [simp del]

definition big_Int_String :: "int \<Rightarrow> string" where
  "big_Int_String i = (if i < 0 then CHR ''-'' # decimal (nat (- i)) else decimal (nat i))"

section \<open>computeSum\<close>

text \<open>The last six lines of \<open>computeSum\<close>: the three digests of the DER bytes, in upper-case hex.\<close>

definition digests :: "'x stdlib \<Rightarrow> bytes \<Rightarrow> Sum" where
  "digests L data =
     \<lparr> MD5 = Sprintf_X (md5_Sum L data),
       SHA1 = Sprintf_X (sha1_Sum L data),
       SHA256 = Sprintf_X (sha256_Sum256 L data) \<rparr>"

text \<open>
  \<open>computeSum\<close> returns \<open>(sum, err)\<close>; with an error the sum is the zero value and is
  never read, so the result is a sum type with the error on the left.
\<close>

definition computeSum :: "'x stdlib \<Rightarrow> bytes \<Rightarrow> 'x error + Sum" where
  "computeSum L inp =
     (case fst (pem_Decode L inp) of
        None \<Rightarrow> Inl (NewBadRequestString ''not a CSR or certificate'')
      | Some p \<Rightarrow>
          if Type p = ''CERTIFICATE REQUEST'' then
            (case x509_ParseCertificateRequest L (Bytes p) of
               Inl err \<Rightarrow> Inl err
             | Inr req \<Rightarrow> Inr (digests L (req_Raw req)))
          else if Type p = ''CERTIFICATE'' then
            (case x509_ParseCertificate L (Bytes p) of
               Inl err \<Rightarrow> Inl err
             | Inr cert \<Rightarrow> Inr (digests L (Raw cert)))
          else Inl (NewBadRequestString ''not a CSR or certificate''))"

section \<open>The handler\<close>

definition CSRNoHostMessage :: string where
  \<open>CSRNoHostMessage =
     ''This certificate lacks a "hosts" field. This makes it unsuitable for'' @ [CHR 0x0A] @
     ''websites. For more information see the Baseline Requirements for the Issuance and Management'' @ [CHR 0x0A] @
     ''of Publicly-Trusted Certificates, v.1.1.6, from the CA/Browser Forum (https://cabforum.org);'' @ [CHR 0x0A] @
     ''specifically, section 10.2.3 ("Information Requirements").''\<close>

text \<open>
  The fields of \<open>Handler\<close> are collaborators; each is the function from the argument of
  its one call to what that call returns. A Go call returning \<open>(value, err)\<close> is a sum
  with the error on the left. The bundler may return a nil bundle without an error
  (\<open>Inr None\<close>). \<open>GetDBAccessor\<close> returns an interface value that is nil when the signer
  has no database; the accessor's \<open>InsertOCSP\<close> returns an error or nil. \<open>ocspSigner\<close>
  is nil unless \<open>WithOCSPSigner\<close> was given. The generator is handed the pointer
  \<open>newCert.Request\<close> and runs the validator on it, so it may change the request; on
  success its value is the CSR, the key and the request as the call leaves it, which is
  what the handler reads afterwards.
\<close>

record 'x Handler =
  csrGen_ProcessRequest :: "CertificateRequest \<Rightarrow> 'x error + bytes \<times> bytes \<times> CertificateRequest"
  bundler_BundleFromPEMorDER :: "bytes \<Rightarrow> 'x error + Bundle option"
  signer_Sign :: "SignRequest \<Rightarrow> 'x error + bytes"
  signer_GetDBAccessor :: "(OCSPRecord \<Rightarrow> 'x error option) option"
  ocspSigner :: "(ocsp_SignRequest \<Rightarrow> 'x error + bytes) option"

text \<open>The calls the handler makes on its collaborators, in the order it makes them.\<close>

datatype call =
    ProcessRequest CertificateRequest
  | Sign SignRequest
  | BundleFromPEMorDER bytes
  | OCSP_Sign ocsp_SignRequest
  | ParseResponse bytes
  | GetDBAccessor
  | InsertOCSP OCSPRecord

text \<open>The \<open>result\<close> map of the handler.\<close>

record Result =
  private_key :: string
  certificate_request :: string
  certificate :: string
  serial_number :: string
  expiration :: int
  sums_certificate_request :: Sum
  sums_certificate :: Sum

text \<open>
  How \<open>Handle\<close> ends: it returns an error, or it returns what \<open>api.SendResponse\<close> or
  \<open>api.SendResponseWithMessage\<close> returns for the arguments given, or it dereferences
  a nil accessor and panics.
\<close>

datatype 'x outcome =
    Return "'x error"
  | SendResponse Result
  | SendResponseWithMessage Result string ErrorCode
  | Panic

definition sent_result :: "'x outcome \<Rightarrow> Result option" where
  "sent_result out =
     (case out of SendResponse res \<Rightarrow> Some res
      | SendResponseWithMessage res msg code \<Rightarrow> Some res
      | _ \<Rightarrow> None)"

definition sent_message :: "'x outcome \<Rightarrow> (string \<times> ErrorCode) option" where
  "sent_message out =
     (case out of SendResponseWithMessage res msg code \<Rightarrow> Some (msg, code) | _ \<Rightarrow> None)"

text \<open>\<open>calling c k\<close>: the call \<open>c\<close> is made, then the handler goes on as \<open>k\<close>.\<close>

definition calling :: "call \<Rightarrow> call list \<times> 'a \<Rightarrow> call list \<times> 'a" where
  "calling c k = (c # fst k, snd k)"

text \<open>
  The block guarded by \<open>h.ocspSigner != nil\<close>. The second component is the outcome when
  the block leaves the handler, \<open>None\<close> when the handler goes on to build the result.
\<close>

definition attest :: "'x stdlib \<Rightarrow> 'x Handler \<Rightarrow> Bundle \<Rightarrow> call list \<times> 'x outcome option" where
  "attest L h bundle =
     (case ocspSigner h of
        None \<Rightarrow> ([], None)
      | Some ocspSign \<Rightarrow>
          (let ocspReq = \<lparr> osr_Certificate = Cert bundle, osr_Status = ''good'' \<rparr> in
           calling (OCSP_Sign ocspReq)
            (case ocspSign ocspReq of
               Inl err \<Rightarrow> ([], Some (Return err))
             | Inr ocspResponse \<Rightarrow>
                 calling (ParseResponse ocspResponse)
                  (case ocsp_ParseResponse L ocspResponse of
                     Inl err \<Rightarrow> ([], Some (Return err))
                   | Inr ocspParsed \<Rightarrow>
                       (let ocspRecord =
                              \<lparr> Serial = big_Int_String (SerialNumber (Cert bundle)),
                                AKI = hex_EncodeToString (AuthorityKeyId (Cert bundle)),
                                Body = ocspResponse,
                                Expiry = NextUpdate ocspParsed \<rparr> in
                        calling GetDBAccessor
                         (case signer_GetDBAccessor h of
                            None \<Rightarrow> ([], Some Panic)
                          | Some dbAccessor \<Rightarrow>
                              calling (InsertOCSP ocspRecord)
                               (case dbAccessor ocspRecord of
                                  Some err \<Rightarrow> ([], Some (Return err))
                                | None \<Rightarrow> ([], None))))))))"

text \<open>
  \<open>Handler.Handle\<close>. The argument \<open>r\<close> is what \<open>io.ReadAll(r.Body)\<close> returns. The value
  is the list of collaborator calls made and the way the handler ends. Logging is
  left out.
\<close>

definition Handle :: "'x stdlib \<Rightarrow> 'x Handler \<Rightarrow> 'x error + bytes \<Rightarrow> call list \<times> 'x outcome" where
  "Handle L h r =
     (case r of
        Inl err \<Rightarrow> ([], Return (NewBadRequest err))
      | Inr body \<Rightarrow>
     (case json_Unmarshal L body of
        Inl err \<Rightarrow> ([], Return (NewBadRequest err))
      | Inr newCert \<Rightarrow>
     (case Request newCert of
        None \<Rightarrow> ([], Return (NewBadRequestString ''missing request section''))
      | Some req \<Rightarrow>
     if CA req \<noteq> None then
       ([], Return (NewBadRequestString ''ca section only permitted in initca''))
     else
     calling (ProcessRequest req)
     (case csrGen_ProcessRequest h req of
        Inl err \<Rightarrow> ([], Return err)
      | Inr (csr, key, req') \<Rightarrow>
     (let signReq = \<lparr> sr_Request = csr, sr_Profile = Profile newCert, sr_Label = Label newCert \<rparr> in
     calling (Sign signReq)
     (case signer_Sign h signReq of
        Inl err \<Rightarrow> ([], Return err)
      | Inr certBytes \<Rightarrow>
     (case computeSum L csr of
        Inl err \<Rightarrow> ([], Return (NewBadRequest err))
      | Inr reqSum \<Rightarrow>
     (case computeSum L certBytes of
        Inl err \<Rightarrow> ([], Return (NewBadRequest err))
      | Inr certSum \<Rightarrow>
     calling (BundleFromPEMorDER certBytes)
     (case bundler_BundleFromPEMorDER h certBytes of
        Inl err \<Rightarrow> ([], Return err)
      | Inr None \<Rightarrow> ([], Return (ErrorString ''failed to bundle certificate''))
      | Inr (Some bundle) \<Rightarrow>
     (case attest L h bundle of
        (calls, Some out) \<Rightarrow> (calls, out)
      | (calls, None) \<Rightarrow>
     (let result =
            \<lparr> private_key = key,
              certificate_request = csr,
              certificate = certBytes,
              serial_number = big_Int_String (SerialNumber (Cert bundle)),
              expiration = Unix (Expires bundle),
              sums_certificate_request = reqSum,
              sums_certificate = certSum \<rparr> in
      (calls,
       if length (Hosts req') = 0 then
         SendResponseWithMessage result CSRNoHostMessage (ErrorCode PolicyError InvalidRequest)
       else SendResponse result))))))))))))"

section \<open>A test double\<close>

text \<open>
  Stub collaborators in the manner of the spec's concrete scenarios: a generator and a
  signer returning fixed PEM texts, a bundler returning a fixed bundle that expires at
  second 200, and an OCSP signer whose response has its next update at second 100.
\<close>

definition stub_cert :: Certificate where
  "stub_cert = \<lparr> Raw = ''cert-der'', SerialNumber = 4660, AuthorityKeyId = ''k'' \<rparr>"

definition stub_bundle :: Bundle where
  "stub_bundle = \<lparr> Cert = stub_cert, Expires = \<lparr> sec = 200, nsec = 0 \<rparr> \<rparr>"

definition stub_request :: "string list \<Rightarrow> CAConfig option \<Rightarrow> bool \<Rightarrow> newCertRequest" where
  "stub_request hosts ca b =
     \<lparr> Request = Some \<lparr> Subject = ''CN=example'', Hosts = hosts, CA = ca \<rparr>,
       Profile = ''default'', Label = ''primary'', Bundle = b \<rparr>"

definition stub_lib :: "unit stdlib" where
  "stub_lib =
     \<lparr> pem_Decode = (\<lambda>inp.
         if inp = ''CSR-PEM'' then (Some \<lparr> Type = ''CERTIFICATE REQUEST'', Bytes = ''csr-der'' \<rparr>, [])
         else if inp = ''CERT-PEM'' then (Some \<lparr> Type = ''CERTIFICATE'', Bytes = ''cert-der'' \<rparr>, [])
         else if inp = ''KEY-PEM'' then (Some \<lparr> Type = ''PRIVATE KEY'', Bytes = ''key-der'' \<rparr>, [])
         else (None, inp)),
       x509_ParseCertificateRequest = (\<lambda>der.
         if der = ''csr-der'' then Inr \<lparr> req_Raw = der \<rparr> else Inl (External ())),
       x509_ParseCertificate = (\<lambda>der.
         if der = ''cert-der'' then Inr stub_cert else Inl (External ())),
       md5_Sum = (\<lambda>data. take 1 data),
       sha1_Sum = (\<lambda>data. take 2 data),
       sha256_Sum256 = (\<lambda>data. take 3 data),
       json_Unmarshal = (\<lambda>body.
         if body = ''hosts'' then Inr (stub_request [''example.com'', ''www.example.com''] None False)
         else if body = ''hosts+bundle'' then Inr (stub_request [''example.com'', ''www.example.com''] None True)
         else if body = ''nohosts'' then Inr (stub_request [] None False)
         else if body = ''ca'' then Inr (stub_request [''example.com''] (Some (CAConfig 0 ''8760h'')) False)
         else Inl (External ())),
       ocsp_ParseResponse = (\<lambda>resp.
         if resp = ''ocsp-good'' then Inr \<lparr> NextUpdate = \<lparr> sec = 100, nsec = 0 \<rparr> \<rparr>
         else Inl (External ())) \<rparr>"

definition stub_handler :: "unit Handler" where
  "stub_handler =
     \<lparr> csrGen_ProcessRequest = (\<lambda>req. Inr (''CSR-PEM'', ''KEY-PEM'', req)),
       bundler_BundleFromPEMorDER = (\<lambda>cert. Inr (Some stub_bundle)),
       signer_Sign = (\<lambda>req. Inr ''CERT-PEM''),
       signer_GetDBAccessor = Some (\<lambda>record. None),
       ocspSigner = None \<rparr>"

definition stub_handler_ocsp :: "unit Handler" where
  "stub_handler_ocsp = stub_handler \<lparr> ocspSigner := Some (\<lambda>req. Inr ''ocsp-good'') \<rparr>"

definition stub_result :: Result where
  "stub_result =
     \<lparr> private_key = ''KEY-PEM'',
       certificate_request = ''CSR-PEM'',
       certificate = ''CERT-PEM'',
       serial_number = ''4660'',
       expiration = 200,
       sums_certificate_request = \<lparr> MD5 = ''63'', SHA1 = ''6373'', SHA256 = ''637372'' \<rparr>,
       sums_certificate = \<lparr> MD5 = ''63'', SHA1 = ''6365'', SHA256 = ''636572'' \<rparr> \<rparr>"

definition stub_handler_dbfail :: "unit Handler" where
  "stub_handler_dbfail =
     stub_handler_ocsp \<lparr> signer_GetDBAccessor := Some (\<lambda>record. Some (External ())) \<rparr>"

definition stub_handler_nil_bundle :: "unit Handler" where
  "stub_handler_nil_bundle = stub_handler \<lparr> bundler_BundleFromPEMorDER := (\<lambda>cert. Inr None) \<rparr>"

definition stub_handler_bad_signer :: "unit Handler" where
  "stub_handler_bad_signer = stub_handler \<lparr> signer_Sign := (\<lambda>req. Inr ''garbage'') \<rparr>"

text \<open>A generator whose validator adds a host name to the request it is given.\<close>

definition stub_handler_adds_host :: "unit Handler" where
  "stub_handler_adds_host =
     stub_handler \<lparr> csrGen_ProcessRequest :=
       (\<lambda>req. Inr (''CSR-PEM'', ''KEY-PEM'', req \<lparr> Hosts := Hosts req @ [''added.example.com''] \<rparr>)) \<rparr>"

definition stub_calls :: "string list \<Rightarrow> call list" where
  "stub_calls hosts =
     [ProcessRequest \<lparr> Subject = ''CN=example'', Hosts = hosts, CA = None \<rparr>,
      Sign \<lparr> sr_Request = ''CSR-PEM'', sr_Profile = ''default'', sr_Label = ''primary'' \<rparr>,
      BundleFromPEMorDER ''CERT-PEM'']"

definition stub_record :: OCSPRecord where
  "stub_record =
     \<lparr> Serial = ''4660'', AKI = ''6b'', Body = ''ocsp-good'', Expiry = \<lparr> sec = 100, nsec = 0 \<rparr> \<rparr>"

definition stub_ocsp_calls :: "call list" where
  "stub_ocsp_calls =
     [OCSP_Sign \<lparr> osr_Certificate = stub_cert, osr_Status = ''good'' \<rparr>,
      ParseResponse ''ocsp-good'',
      GetDBAccessor,
      InsertOCSP stub_record]"

section \<open>Which calls belong to attestation\<close>

definition attestation_call :: "call \<Rightarrow> bool" where
  "attestation_call c =
     (case c of
        OCSP_Sign req \<Rightarrow> True
      | ParseResponse resp \<Rightarrow> True
      | GetDBAccessor \<Rightarrow> True
      | InsertOCSP record \<Rightarrow> True
      | _ \<Rightarrow> False)"

section \<open>Runs of the test double\<close>

lemmas stub_defs =
  stub_handler_def stub_handler_ocsp_def stub_handler_dbfail_def stub_handler_nil_bundle_def
  stub_handler_bad_signer_def stub_handler_adds_host_def stub_lib_def stub_request_def stub_bundle_def stub_cert_def
  stub_result_def stub_calls_def stub_record_def stub_ocsp_calls_def

lemmas handler_defs =
  Handle_def attest_def calling_def computeSum_def digests_def NewBadRequest_def
  NewBadRequestString_def Sprintf_X_def hex_EncodeToString_def hex_bytes_def hex_digit_def
  big_Int_String_def Unix_def

lemmas result_splits = sum.splits option.splits prod.splits if_splits

lemma run_hosts:
  "Handle stub_lib stub_handler (Inr ''hosts'') =
     (stub_calls [''example.com'', ''www.example.com''], SendResponse stub_result)"
  by (simp add: stub_defs handler_defs decimal.simps)

lemma run_nohosts:
  "Handle stub_lib stub_handler (Inr ''nohosts'') =
     (stub_calls [],
      SendResponseWithMessage stub_result CSRNoHostMessage (ErrorCode PolicyError InvalidRequest))"
  by (simp add: stub_defs handler_defs decimal.simps)

lemma run_adds_host:
  "Handle stub_lib stub_handler_adds_host (Inr ''nohosts'') = (stub_calls [], SendResponse stub_result)"
  by (simp add: stub_defs handler_defs decimal.simps)

lemma run_ocsp:
  "Handle stub_lib stub_handler_ocsp (Inr ''hosts'') =
     (stub_calls [''example.com'', ''www.example.com''] @ stub_ocsp_calls, SendResponse stub_result)"
  by (simp add: stub_defs handler_defs decimal.simps)

lemma run_dbfail:
  "Handle stub_lib stub_handler_dbfail (Inr ''hosts'') =
     (stub_calls [''example.com'', ''www.example.com''] @ stub_ocsp_calls, Return (External ()))"
  by (simp add: stub_defs handler_defs decimal.simps)

lemma run_nil_bundle:
  "Handle stub_lib stub_handler_nil_bundle (Inr ''hosts'') =
     (stub_calls [''example.com'', ''www.example.com''],
      Return (ErrorString ''failed to bundle certificate''))"
  by (simp add: stub_defs handler_defs)

lemma run_bad_signer:
  "Handle stub_lib stub_handler_bad_signer (Inr ''hosts'') =
     ([ProcessRequest \<lparr> Subject = ''CN=example'', Hosts = [''example.com'', ''www.example.com''], CA = None \<rparr>,
       Sign \<lparr> sr_Request = ''CSR-PEM'', sr_Profile = ''default'', sr_Label = ''primary'' \<rparr>],
      Return (NewBadRequest (NewBadRequestString ''not a CSR or certificate'')))"
  by (simp add: stub_defs handler_defs)

section \<open>Properties of computeSum\<close>

text \<open>
  C5: on every input, \<open>computeSum\<close> fails with the bad-request error when
  \<open>pem.Decode\<close> finds no block, fails with the same error when the block's type is
  neither \<open>CERTIFICATE REQUEST\<close> nor \<open>CERTIFICATE\<close>, and returns digests only for
  a block of one of these two types.
\<close>

theorem computeSum_rejects:
  "(fst (pem_Decode L inp) = None \<longrightarrow>
      computeSum L inp = Inl (NewBadRequestString ''not a CSR or certificate'')) \<and>
   (\<forall>p. fst (pem_Decode L inp) = Some p \<and> Type p \<noteq> ''CERTIFICATE REQUEST'' \<and>
        Type p \<noteq> ''CERTIFICATE'' \<longrightarrow>
      computeSum L inp = Inl (NewBadRequestString ''not a CSR or certificate'')) \<and>
   (\<forall>s. computeSum L inp = Inr s \<longrightarrow>
      (\<exists>p. fst (pem_Decode L inp) = Some p \<and>
           (Type p = ''CERTIFICATE REQUEST'' \<or> Type p = ''CERTIFICATE'')))"
  by (auto simp: computeSum_def split: result_splits)

theorem computeSum_rejects_witness:
  "fst (pem_Decode stub_lib ''junk'') = None \<and>
   computeSum stub_lib ''junk'' = Inl (NewBadRequestString ''not a CSR or certificate'') \<and>
   fst (pem_Decode stub_lib ''KEY-PEM'') = Some \<lparr> Type = ''PRIVATE KEY'', Bytes = ''key-der'' \<rparr> \<and>
   computeSum stub_lib ''KEY-PEM'' = Inl (NewBadRequestString ''not a CSR or certificate'') \<and>
   computeSum stub_lib ''CERT-PEM'' = Inr \<lparr> MD5 = ''63'', SHA1 = ''6365'', SHA256 = ''636572'' \<rparr> \<and>
   fst (pem_Decode stub_lib ''CERT-PEM'') = Some \<lparr> Type = ''CERTIFICATE'', Bytes = ''cert-der'' \<rparr>"
proof -
  have none: "fst (pem_Decode stub_lib ''junk'') = None"
    by (simp add: stub_lib_def)
  have key: "fst (pem_Decode stub_lib ''KEY-PEM'') = Some \<lparr> Type = ''PRIVATE KEY'', Bytes = ''key-der'' \<rparr>"
    by (simp add: stub_lib_def)
  have cert: "computeSum stub_lib ''CERT-PEM'' = Inr \<lparr> MD5 = ''63'', SHA1 = ''6365'', SHA256 = ''636572'' \<rparr>"
    by (simp add: stub_defs handler_defs)
  from computeSum_rejects [of stub_lib "''junk''"] none
  have a: "computeSum stub_lib ''junk'' = Inl (NewBadRequestString ''not a CSR or certificate'')"
    by blast
  from computeSum_rejects [of stub_lib "''KEY-PEM''"] key
  have b: "computeSum stub_lib ''KEY-PEM'' = Inl (NewBadRequestString ''not a CSR or certificate'')"
    by simp
  from computeSum_rejects [of stub_lib "''CERT-PEM''"] cert
  have c: "fst (pem_Decode stub_lib ''CERT-PEM'') = Some \<lparr> Type = ''CERTIFICATE'', Bytes = ''cert-der'' \<rparr>"
    by (simp add: stub_lib_def)
  from none a key b cert c show ?thesis by blast
qed

section \<open>Properties of the handler\<close>

text \<open>
  C1, as amended: when an OCSP signer is configured and the handler sends a result (so
  that signing the OCSP response, parsing it and inserting the record all went through),
  the \<open>expiration\<close> of the result is the bundle's own expiry in Unix seconds. The
  parsed next-update time is the \<open>Expiry\<close> of the record that was inserted.
\<close>

theorem expiration_with_ocsp:
  assumes "ocspSigner h = Some ocspSign"
    and "Handle L h r = (calls, out)"
    and "sent_result out = Some res"
  shows "\<exists>bundle ocspResponse ocspParsed dbAccessor record.
      bundler_BundleFromPEMorDER h (certificate res) = Inr (Some bundle) \<and>
      ocspSign \<lparr> osr_Certificate = Cert bundle, osr_Status = ''good'' \<rparr> = Inr ocspResponse \<and>
      ocsp_ParseResponse L ocspResponse = Inr ocspParsed \<and>
      signer_GetDBAccessor h = Some dbAccessor \<and>
      dbAccessor record = None \<and>
      InsertOCSP record \<in> set calls \<and>
      Expiry record = NextUpdate ocspParsed \<and>
      expiration res = Unix (Expires bundle)"
  using assms
  by (auto simp: Handle_def attest_def calling_def Let_def sent_result_def split: result_splits)

theorem expiration_with_ocsp_witness:
  "ocspSigner stub_handler_ocsp = Some (\<lambda>req. Inr ''ocsp-good'') \<and>
   sent_result (SendResponse stub_result :: unit outcome) = Some stub_result \<and>
   bundler_BundleFromPEMorDER stub_handler_ocsp (certificate stub_result) = Inr (Some stub_bundle) \<and>
   expiration stub_result = Unix (Expires stub_bundle)"
proof -
  have a: "ocspSigner stub_handler_ocsp = Some (\<lambda>req. Inr ''ocsp-good'')"
    by (simp add: stub_defs)
  have b: "sent_result (SendResponse stub_result :: unit outcome) = Some stub_result"
    by (simp add: sent_result_def)
  have c: "bundler_BundleFromPEMorDER stub_handler_ocsp (certificate stub_result) = Inr (Some stub_bundle)"
    by (simp add: stub_handler_ocsp_def stub_handler_def)
  from expiration_with_ocsp [OF a run_ocsp b] c
  have "expiration stub_result = Unix (Expires stub_bundle)"
    by auto
  with a b c show ?thesis by blast
qed

text \<open>
  C1, as the spec states it, fails: with an OCSP signer whose response has its next
  update at second 100 and a bundle expiring at second 200, every step succeeds and the
  result carries 200.
\<close>

theorem expiration_next_update_counterexample:
  "ocspSigner stub_handler_ocsp \<noteq> None \<and>
   ocsp_ParseResponse stub_lib ''ocsp-good'' = Inr \<lparr> NextUpdate = \<lparr> sec = 100, nsec = 0 \<rparr> \<rparr> \<and>
   Handle stub_lib stub_handler_ocsp (Inr ''hosts'') =
     (stub_calls [''example.com'', ''www.example.com''] @
      [OCSP_Sign \<lparr> osr_Certificate = stub_cert, osr_Status = ''good'' \<rparr>,
       ParseResponse ''ocsp-good'',
       GetDBAccessor,
       InsertOCSP \<lparr> Serial = ''4660'', AKI = ''6b'', Body = ''ocsp-good'',
                    Expiry = \<lparr> sec = 100, nsec = 0 \<rparr> \<rparr>],
      SendResponse stub_result) \<and>
   expiration stub_result = 200 \<and>
   expiration stub_result \<noteq> Unix \<lparr> sec = 100, nsec = 0 \<rparr>"
  using run_ocsp by (simp add: stub_defs Unix_def)

text \<open>
  C2: when the insertion of the OCSP record returns an error, the handler returns that
  error and sends no result, although an OCSP signer is configured and the signer had
  already signed.
\<close>

theorem insert_failure_fails_request:
  assumes "Handle L h r = (calls, out)"
    and "InsertOCSP record \<in> set calls"
    and "signer_GetDBAccessor h = Some dbAccessor"
    and "dbAccessor record = Some err"
  shows "out = Return err \<and> sent_result out = None \<and> ocspSigner h \<noteq> None \<and>
    (\<exists>signReq certBytes. Sign signReq \<in> set calls \<and> signer_Sign h signReq = Inr certBytes)"
  using assms
  by (auto simp: Handle_def attest_def calling_def Let_def sent_result_def split: result_splits)

theorem insert_failure_fails_request_witness:
  "InsertOCSP stub_record \<in> set (stub_calls [''example.com'', ''www.example.com''] @ stub_ocsp_calls) \<and>
   signer_GetDBAccessor stub_handler_dbfail = Some (\<lambda>record. Some (External ())) \<and>
   snd (Handle stub_lib stub_handler_dbfail (Inr ''hosts'')) = Return (External ()) \<and>
   sent_result (Return (External ()) :: unit outcome) = None"
proof -
  have a: "InsertOCSP stub_record \<in> set (stub_calls [''example.com'', ''www.example.com''] @ stub_ocsp_calls)"
    by (simp add: stub_ocsp_calls_def)
  have b: "signer_GetDBAccessor stub_handler_dbfail = Some (\<lambda>record. Some (External ()))"
    by (simp add: stub_defs)
  have c: "(\<lambda>record :: OCSPRecord. Some (External ())) stub_record = Some (External () :: unit error)"
    by simp
  from insert_failure_fails_request [OF run_dbfail a b c] a b run_dbfail show ?thesis
    by simp
qed

text \<open>
  When the attestation block lets the handler go on: no OCSP signer is configured, or
  signing, parsing and inserting all went through.
\<close>

lemma attest_completes:
  "snd (attest L h bundle) = None \<longleftrightarrow>
     ocspSigner h = None \<or>
     (\<exists>ocspSign ocspResponse ocspParsed dbAccessor.
        ocspSigner h = Some ocspSign \<and>
        ocspSign \<lparr> osr_Certificate = Cert bundle, osr_Status = ''good'' \<rparr> = Inr ocspResponse \<and>
        ocsp_ParseResponse L ocspResponse = Inr ocspParsed \<and>
        signer_GetDBAccessor h = Some dbAccessor \<and>
        dbAccessor \<lparr> Serial = big_Int_String (SerialNumber (Cert bundle)),
                     AKI = hex_EncodeToString (AuthorityKeyId (Cert bundle)),
                     Body = ocspResponse,
                     Expiry = NextUpdate ocspParsed \<rparr> = None)"
  by (auto simp: attest_def calling_def Let_def split: result_splits)

text \<open>
  A result is sent only after the generator has returned, and the message goes with it
  exactly when the request, as the generator left it, has no hosts.
\<close>

lemma sent_result_after_processing:
  assumes "Handle L h (Inr body) = (calls, out)"
    and "json_Unmarshal L body = Inr newCert"
    and "Request newCert = Some req"
    and "sent_result out = Some res"
  shows "\<exists>csr key req'. csrGen_ProcessRequest h req = Inr (csr, key, req') \<and>
    out = (if Hosts req' = []
           then SendResponseWithMessage res CSRNoHostMessage (ErrorCode PolicyError InvalidRequest)
           else SendResponse res)"
proof -
  from assms obtain csr key req' where gen: "csrGen_ProcessRequest h req = Inr (csr, key, req')"
    by (auto simp: Handle_def calling_def sent_result_def split: result_splits)
  with assms have "out = (if Hosts req' = []
           then SendResponseWithMessage res CSRNoHostMessage (ErrorCode PolicyError InvalidRequest)
           else SendResponse res)"
    by (auto simp: Handle_def attest_def calling_def Let_def sent_result_def split: result_splits)
  with gen show ?thesis by blast
qed

text \<open>
  C3, as amended: when every step of the pipeline succeeds, the handler sends the
  result. It sends it with \<open>CSRNoHostMessage\<close> and the code of the policy error
  \<open>InvalidRequest\<close> when the host list of the request is empty at that point, which is
  after the CSR generator has been handed the request, and without any message or code
  when that list is not empty. For a generator that returns the request as it got it
  (\<open>req' = req\<close>) this is the host list of the decoded request.
\<close>

theorem advisory_after_processing:
  assumes "json_Unmarshal L body = Inr newCert"
    and "Request newCert = Some req"
    and "CA req = None"
    and "csrGen_ProcessRequest h req = Inr (csr, key, req')"
    and "signer_Sign h \<lparr> sr_Request = csr, sr_Profile = Profile newCert, sr_Label = Label newCert \<rparr>
           = Inr certBytes"
    and "computeSum L csr = Inr reqSum"
    and "computeSum L certBytes = Inr certSum"
    and "bundler_BundleFromPEMorDER h certBytes = Inr (Some bundle)"
    and "ocspSigner h = None \<or>
         (\<exists>ocspSign ocspResponse ocspParsed dbAccessor.
            ocspSigner h = Some ocspSign \<and>
            ocspSign \<lparr> osr_Certificate = Cert bundle, osr_Status = ''good'' \<rparr> = Inr ocspResponse \<and>
            ocsp_ParseResponse L ocspResponse = Inr ocspParsed \<and>
            signer_GetDBAccessor h = Some dbAccessor \<and>
            dbAccessor \<lparr> Serial = big_Int_String (SerialNumber (Cert bundle)),
                         AKI = hex_EncodeToString (AuthorityKeyId (Cert bundle)),
                         Body = ocspResponse,
                         Expiry = NextUpdate ocspParsed \<rparr> = None)"
    and "res = \<lparr> private_key = key,
                 certificate_request = csr,
                 certificate = certBytes,
                 serial_number = big_Int_String (SerialNumber (Cert bundle)),
                 expiration = Unix (Expires bundle),
                 sums_certificate_request = reqSum,
                 sums_certificate = certSum \<rparr>"
  shows "snd (Handle L h (Inr body)) =
           (if Hosts req' = []
            then SendResponseWithMessage res CSRNoHostMessage (ErrorCode PolicyError InvalidRequest)
            else SendResponse res) \<and>
         sent_result (snd (Handle L h (Inr body))) = Some res \<and>
         sent_message (snd (Handle L h (Inr body))) =
           (if Hosts req' = []
            then Some (CSRNoHostMessage, ErrorCode PolicyError InvalidRequest)
            else None)"
proof -
  from assms(9) have go_on: "snd (attest L h bundle) = None"
    by (simp only: attest_completes)
  with assms(1-8,10) show ?thesis
    by (auto simp: Handle_def calling_def Let_def sent_result_def sent_message_def
             split: result_splits)
qed

theorem advisory_after_processing_witness:
  "json_Unmarshal stub_lib ''nohosts'' = Inr (stub_request [] None False) \<and>
   json_Unmarshal stub_lib ''hosts'' = Inr (stub_request [''example.com'', ''www.example.com''] None False) \<and>
   snd (Handle stub_lib stub_handler (Inr ''nohosts'')) =
     SendResponseWithMessage stub_result CSRNoHostMessage (ErrorCode PolicyError InvalidRequest) \<and>
   sent_message (snd (Handle stub_lib stub_handler (Inr ''nohosts''))) =
     Some (CSRNoHostMessage, ErrorCode PolicyError InvalidRequest) \<and>
   snd (Handle stub_lib stub_handler_ocsp (Inr ''hosts'')) = SendResponse stub_result \<and>
   sent_message (snd (Handle stub_lib stub_handler_ocsp (Inr ''hosts''))) = None"
proof -
  let ?req = "\<lambda>hosts. \<lparr> Subject = ''CN=example'', Hosts = hosts, CA = None \<rparr>"
  let ?some = "[''example.com'', ''www.example.com'']"
  have a0: "json_Unmarshal stub_lib ''nohosts'' = Inr (stub_request [] None False)"
    by (simp add: stub_lib_def)
  have a1: "json_Unmarshal stub_lib ''hosts'' = Inr (stub_request ?some None False)"
    by (simp add: stub_lib_def)
  have b: "Request (stub_request hosts None False) = Some (?req hosts)" for hosts
    by (simp add: stub_request_def)
  have c: "CA (?req hosts) = None" for hosts
    by simp
  have d0: "csrGen_ProcessRequest stub_handler (?req hosts) = Inr (''CSR-PEM'', ''KEY-PEM'', ?req hosts)"
    for hosts
    by (simp add: stub_handler_def)
  have d1: "csrGen_ProcessRequest stub_handler_ocsp (?req hosts) = Inr (''CSR-PEM'', ''KEY-PEM'', ?req hosts)"
    for hosts
    by (simp add: stub_handler_ocsp_def stub_handler_def)
  have e0: "signer_Sign stub_handler
      \<lparr> sr_Request = ''CSR-PEM'', sr_Profile = Profile (stub_request hosts None False),
        sr_Label = Label (stub_request hosts None False) \<rparr> = Inr ''CERT-PEM''" for hosts
    by (simp add: stub_handler_def)
  have e1: "signer_Sign stub_handler_ocsp
      \<lparr> sr_Request = ''CSR-PEM'', sr_Profile = Profile (stub_request hosts None False),
        sr_Label = Label (stub_request hosts None False) \<rparr> = Inr ''CERT-PEM''" for hosts
    by (simp add: stub_handler_ocsp_def stub_handler_def)
  have f: "computeSum stub_lib ''CSR-PEM'' = Inr \<lparr> MD5 = ''63'', SHA1 = ''6373'', SHA256 = ''637372'' \<rparr>"
    by (simp add: stub_defs handler_defs)
  have g: "computeSum stub_lib ''CERT-PEM'' = Inr \<lparr> MD5 = ''63'', SHA1 = ''6365'', SHA256 = ''636572'' \<rparr>"
    by (simp add: stub_defs handler_defs)
  have i0: "bundler_BundleFromPEMorDER stub_handler ''CERT-PEM'' = Inr (Some stub_bundle)"
    by (simp add: stub_handler_def)
  have i1: "bundler_BundleFromPEMorDER stub_handler_ocsp ''CERT-PEM'' = Inr (Some stub_bundle)"
    by (simp add: stub_handler_ocsp_def stub_handler_def)
  have j0: "ocspSigner stub_handler = None \<or>
         (\<exists>ocspSign ocspResponse ocspParsed dbAccessor.
            ocspSigner stub_handler = Some ocspSign \<and>
            ocspSign \<lparr> osr_Certificate = Cert stub_bundle, osr_Status = ''good'' \<rparr> = Inr ocspResponse \<and>
            ocsp_ParseResponse stub_lib ocspResponse = Inr ocspParsed \<and>
            signer_GetDBAccessor stub_handler = Some dbAccessor \<and>
            dbAccessor \<lparr> Serial = big_Int_String (SerialNumber (Cert stub_bundle)),
                         AKI = hex_EncodeToString (AuthorityKeyId (Cert stub_bundle)),
                         Body = ocspResponse,
                         Expiry = NextUpdate ocspParsed \<rparr> = None)"
    by (simp add: stub_handler_def)
  have j1: "ocspSigner stub_handler_ocsp = None \<or>
         (\<exists>ocspSign ocspResponse ocspParsed dbAccessor.
            ocspSigner stub_handler_ocsp = Some ocspSign \<and>
            ocspSign \<lparr> osr_Certificate = Cert stub_bundle, osr_Status = ''good'' \<rparr> = Inr ocspResponse \<and>
            ocsp_ParseResponse stub_lib ocspResponse = Inr ocspParsed \<and>
            signer_GetDBAccessor stub_handler_ocsp = Some dbAccessor \<and>
            dbAccessor \<lparr> Serial = big_Int_String (SerialNumber (Cert stub_bundle)),
                         AKI = hex_EncodeToString (AuthorityKeyId (Cert stub_bundle)),
                         Body = ocspResponse,
                         Expiry = NextUpdate ocspParsed \<rparr> = None)"
    by (simp add: stub_handler_ocsp_def stub_handler_def stub_lib_def)
  have k: "stub_result =
      \<lparr> private_key = ''KEY-PEM'',
        certificate_request = ''CSR-PEM'',
        certificate = ''CERT-PEM'',
        serial_number = big_Int_String (SerialNumber (Cert stub_bundle)),
        expiration = Unix (Expires stub_bundle),
        sums_certificate_request = \<lparr> MD5 = ''63'', SHA1 = ''6373'', SHA256 = ''637372'' \<rparr>,
        sums_certificate = \<lparr> MD5 = ''63'', SHA1 = ''6365'', SHA256 = ''636572'' \<rparr> \<rparr>"
    by (simp add: stub_result_def stub_bundle_def stub_cert_def big_Int_String_def Unix_def
        decimal.simps)
  from advisory_after_processing [OF a0 b c d0 e0 f g i0 j0 k]
  have n: "snd (Handle stub_lib stub_handler (Inr ''nohosts'')) =
       SendResponseWithMessage stub_result CSRNoHostMessage (ErrorCode PolicyError InvalidRequest) \<and>
     sent_message (snd (Handle stub_lib stub_handler (Inr ''nohosts''))) =
       Some (CSRNoHostMessage, ErrorCode PolicyError InvalidRequest)"
    by auto
  from advisory_after_processing [OF a1 b c d1 e1 f g i1 j1 k]
  have y: "snd (Handle stub_lib stub_handler_ocsp (Inr ''hosts'')) = SendResponse stub_result \<and>
     sent_message (snd (Handle stub_lib stub_handler_ocsp (Inr ''hosts''))) = None"
    by auto
  from a0 a1 n y show ?thesis by blast
qed

text \<open>
  C3, as the spec states it, fails: a request decoded with an empty host list, handled
  with a generator whose validator adds a host name, passes every step and gets its
  result sent without the message and the code.
\<close>

theorem advisory_no_hosts_counterexample:
  "json_Unmarshal stub_lib ''nohosts'' = Inr (stub_request [] None False) \<and>
   Request (stub_request [] None False) = Some \<lparr> Subject = ''CN=example'', Hosts = [], CA = None \<rparr> \<and>
   Handle stub_lib stub_handler_adds_host (Inr ''nohosts'') = (stub_calls [], SendResponse stub_result) \<and>
   sent_result (SendResponse stub_result :: unit outcome) = Some stub_result \<and>
   sent_message (SendResponse stub_result :: unit outcome) = None"
  using run_adds_host by (simp add: stub_lib_def stub_request_def sent_result_def sent_message_def)

text \<open>
  C4: a decoded request whose \<open>Request\<close> carries a CA section is rejected with the
  bad-request error, and no collaborator is called: neither the CSR generator nor the
  signer.
\<close>

theorem ca_section_rejected:
  assumes "json_Unmarshal L body = Inr newCert"
    and "Request newCert = Some req"
    and "CA req \<noteq> None"
  shows "Handle L h (Inr body) =
    ([], Return (NewBadRequestString ''ca section only permitted in initca''))"
  using assms by (simp add: Handle_def)

theorem ca_section_rejected_witness:
  "json_Unmarshal stub_lib ''ca'' = Inr (stub_request [''example.com''] (Some (CAConfig 0 ''8760h'')) False) \<and>
   Handle stub_lib stub_handler (Inr ''ca'') =
     ([], Return (NewBadRequestString ''ca section only permitted in initca''))"
proof -
  have a: "json_Unmarshal stub_lib ''ca'' =
      Inr (stub_request [''example.com''] (Some (CAConfig 0 ''8760h'')) False)"
    by (simp add: stub_lib_def)
  have b: "Request (stub_request [''example.com''] (Some (CAConfig 0 ''8760h'')) False) =
      Some \<lparr> Subject = ''CN=example'', Hosts = [''example.com''], CA = Some (CAConfig 0 ''8760h'') \<rparr>"
    by (simp add: stub_request_def)
  have c: "CA \<lparr> Subject = ''CN=example'', Hosts = [''example.com''], CA = Some (CAConfig 0 ''8760h'') \<rparr> \<noteq> None"
    by simp
  from ca_section_rejected [OF a b c, of stub_handler] a show ?thesis
    by simp
qed

text \<open>
  C6: when the bundler returns a nil bundle and no error for the certificate, the
  handler returns the error \<open>failed to bundle certificate\<close>, sends no result, and the
  call of the bundler is the last call it makes.
\<close>

theorem nil_bundle_fails_request:
  assumes "Handle L h r = (calls, out)"
    and "BundleFromPEMorDER certBytes \<in> set calls"
    and "bundler_BundleFromPEMorDER h certBytes = Inr None"
  shows "out = Return (ErrorString ''failed to bundle certificate'') \<and>
    sent_result out = None \<and> last calls = BundleFromPEMorDER certBytes"
  using assms
  by (auto simp: Handle_def attest_def calling_def Let_def sent_result_def split: result_splits)

theorem nil_bundle_fails_request_witness:
  "BundleFromPEMorDER ''CERT-PEM'' \<in> set (stub_calls [''example.com'', ''www.example.com'']) \<and>
   bundler_BundleFromPEMorDER stub_handler_nil_bundle ''CERT-PEM'' = Inr None \<and>
   snd (Handle stub_lib stub_handler_nil_bundle (Inr ''hosts'')) =
     Return (ErrorString ''failed to bundle certificate'')"
proof -
  have a: "BundleFromPEMorDER ''CERT-PEM'' \<in> set (stub_calls [''example.com'', ''www.example.com''])"
    by (simp add: stub_calls_def)
  have b: "bundler_BundleFromPEMorDER stub_handler_nil_bundle ''CERT-PEM'' = Inr None"
    by (simp add: stub_defs)
  from nil_bundle_fails_request [OF run_nil_bundle a b] a b run_nil_bundle show ?thesis
    by simp
qed

text \<open>
  C7: a handler without an OCSP signer makes no attestation call (no OCSP signing, no
  parsing of an OCSP response, no access to the database, no insertion of a record), and
  the \<open>expiration\<close> of a result it sends is the bundle's expiry in Unix seconds.
\<close>

theorem no_ocsp_signer_no_attestation:
  assumes "ocspSigner h = None"
    and "Handle L h r = (calls, out)"
  shows "(\<forall>c \<in> set calls. \<not> attestation_call c) \<and>
    (\<forall>res. sent_result out = Some res \<longrightarrow>
       (\<exists>bundle. bundler_BundleFromPEMorDER h (certificate res) = Inr (Some bundle) \<and>
          expiration res = Unix (Expires bundle)))"
  using assms
  by (auto simp: Handle_def attest_def calling_def Let_def sent_result_def attestation_call_def
           split: result_splits)

theorem no_ocsp_signer_no_attestation_witness:
  "ocspSigner stub_handler = None \<and>
   filter attestation_call (stub_calls [''example.com'', ''www.example.com'']) = [] \<and>
   sent_result (SendResponse stub_result :: unit outcome) = Some stub_result \<and>
   bundler_BundleFromPEMorDER stub_handler (certificate stub_result) = Inr (Some stub_bundle) \<and>
   expiration stub_result = Unix (Expires stub_bundle)"
proof -
  have a: "ocspSigner stub_handler = None"
    by (simp add: stub_handler_def)
  have b: "sent_result (SendResponse stub_result :: unit outcome) = Some stub_result"
    by (simp add: sent_result_def)
  have c: "bundler_BundleFromPEMorDER stub_handler (certificate stub_result) = Inr (Some stub_bundle)"
    by (simp add: stub_handler_def)
  note inst = no_ocsp_signer_no_attestation [OF a run_hosts]
  from inst have d: "filter attestation_call (stub_calls [''example.com'', ''www.example.com'']) = []"
    by (simp add: filter_empty_conv)
  from inst b c have e: "expiration stub_result = Unix (Expires stub_bundle)"
    by auto
  from a b c d e show ?thesis by blast
qed

text \<open>
  C9: two requests that decode to the same \<open>newCertRequest\<close> up to the value of
  \<open>Bundle\<close> make the handler perform the same calls and end in the same way.
\<close>

theorem bundle_flag_ignored:
  assumes "json_Unmarshal L body1 = Inr newCert"
    and "json_Unmarshal L body2 = Inr (newCert \<lparr> Bundle := b \<rparr>)"
  shows "Handle L h (Inr body1) = Handle L h (Inr body2)"
  using assms
  by (simp add: Handle_def Let_def split: option.split sum.split prod.split)

theorem bundle_flag_ignored_witness:
  "json_Unmarshal stub_lib ''hosts'' = Inr (stub_request [''example.com'', ''www.example.com''] None False) \<and>
   json_Unmarshal stub_lib ''hosts+bundle'' =
     Inr ((stub_request [''example.com'', ''www.example.com''] None False) \<lparr> Bundle := True \<rparr>) \<and>
   Handle stub_lib stub_handler_ocsp (Inr ''hosts'') = Handle stub_lib stub_handler_ocsp (Inr ''hosts+bundle'')"
proof -
  have a: "json_Unmarshal stub_lib ''hosts'' =
      Inr (stub_request [''example.com'', ''www.example.com''] None False)"
    by (simp add: stub_lib_def)
  have b: "json_Unmarshal stub_lib ''hosts+bundle'' =
      Inr ((stub_request [''example.com'', ''www.example.com''] None False) \<lparr> Bundle := True \<rparr>)"
    by (simp add: stub_lib_def stub_request_def)
  from bundle_flag_ignored [OF a b, of stub_handler_ocsp] a b show ?thesis
    by blast
qed

text \<open>
  C10: when the signer returns bytes on which \<open>computeSum\<close> fails, the handler returns
  a bad-request error; it wraps the error of the certificate's \<open>computeSum\<close> whenever
  the digests of the CSR could be computed.
\<close>

theorem unparseable_certificate_is_bad_request:
  assumes "Handle L h r = (calls, out)"
    and "Sign signReq \<in> set calls"
    and "signer_Sign h signReq = Inr certBytes"
    and "computeSum L certBytes = Inl err"
  shows "\<exists>e. out = Return (NewBadRequest e) \<and>
    (\<forall>reqSum. computeSum L (sr_Request signReq) = Inr reqSum \<longrightarrow> e = err)"
  using assms
  by (auto simp: Handle_def attest_def calling_def Let_def split: result_splits)

theorem unparseable_certificate_is_bad_request_witness:
  "signer_Sign stub_handler_bad_signer
     \<lparr> sr_Request = ''CSR-PEM'', sr_Profile = ''default'', sr_Label = ''primary'' \<rparr> = Inr ''garbage'' \<and>
   computeSum stub_lib ''garbage'' = Inl (NewBadRequestString ''not a CSR or certificate'') \<and>
   computeSum stub_lib ''CSR-PEM'' = Inr \<lparr> MD5 = ''63'', SHA1 = ''6373'', SHA256 = ''637372'' \<rparr> \<and>
   snd (Handle stub_lib stub_handler_bad_signer (Inr ''hosts'')) =
     Return (NewBadRequest (NewBadRequestString ''not a CSR or certificate''))"
proof -
  let ?signReq = "\<lparr> sr_Request = ''CSR-PEM'', sr_Profile = ''default'', sr_Label = ''primary'' \<rparr>"
  let ?calls = "[ProcessRequest \<lparr> Subject = ''CN=example'', Hosts = [''example.com'', ''www.example.com''], CA = None \<rparr>,
       Sign ?signReq]"
  have a: "Sign ?signReq \<in> set ?calls"
    by simp
  have b: "signer_Sign stub_handler_bad_signer ?signReq = Inr ''garbage''"
    by (simp add: stub_defs)
  have c: "computeSum stub_lib ''garbage'' = (Inl (NewBadRequestString ''not a CSR or certificate'') :: unit error + Sum)"
    by (simp add: stub_defs handler_defs)
  have d: "computeSum stub_lib ''CSR-PEM'' = Inr \<lparr> MD5 = ''63'', SHA1 = ''6373'', SHA256 = ''637372'' \<rparr>"
    by (simp add: stub_defs handler_defs)
  from unparseable_certificate_is_bad_request [OF run_bad_signer a b c] d
  have "snd (Handle stub_lib stub_handler_bad_signer (Inr ''hosts'')) =
     Return (NewBadRequest (NewBadRequestString ''not a CSR or certificate''))"
    by (simp add: run_bad_signer)
  with b c d show ?thesis by blast
qed

end
